theory Spec2Isabelle
  imports Complex_Main
begin

section \<open>JavaScript values\<close>

text \<open>
  The booking backend (server.js) receives request bodies produced by the JSON and
  URL-encoded body parsers and inspects error objects thrown by the calendar client.
  Both are untyped JavaScript values. A number is NaN, an infinity or a finite value
  (every finite double is a rational; \<open>-0\<close> and \<open>+0\<close> are both \<open>Fin 0\<close>). A string is the
  list of bytes of its UTF-8 encoding. An object is the list of its own properties.
\<close>

datatype jsnum = NaN | PosInf | NegInf | Fin rat

datatype jsval =
    JUndefined
  | JNull
  | JBool bool
  | JNum jsnum
  | JStr string
  | JArr "jsval list"
  | JObj "(string \<times> jsval) list"

text \<open>ToBoolean: what \<open>!x\<close>, \<open>x && y\<close> and \<open>if (x)\<close> test.\<close>

fun truthy :: "jsval \<Rightarrow> bool" where
  "truthy JUndefined = False"
| "truthy JNull = False"
| "truthy (JBool b) = b"
| "truthy (JNum n) = (case n of NaN \<Rightarrow> False | Fin r \<Rightarrow> r \<noteq> 0 | _ \<Rightarrow> True)"
| "truthy (JStr s) = (s \<noteq> [])"
| "truthy (JArr xs) = True"
| "truthy (JObj ps) = True"

text \<open>
  Reading a property \<open>v.k\<close> of a value the source has already tested to be truthy, for
  the names the source reads (\<open>data\<close>, \<open>error\<close>, \<open>code\<close>), none of which is defined by a
  built-in prototype: an object yields its own property or \<open>undefined\<close>, every other
  truthy value yields \<open>undefined\<close>.
\<close>

fun get :: "jsval \<Rightarrow> string \<Rightarrow> jsval" where
  "get (JObj ps) k = (case map_of ps k of None \<Rightarrow> JUndefined | Some v \<Rightarrow> v)"
| "get v k = JUndefined"

text \<open>The names of the own properties of an object.\<close>

fun keys :: "jsval \<Rightarrow> string list" where
  "keys (JObj ps) = map fst ps"
| "keys v = []"

text \<open>
  \<open>js_body\<close> is a \<open>req.body\<close> that a body parser has built, an object, and
  \<open>process.env\<close> is the table of environment variables. Destructuring such a body,
  \<open>const { k } = req.body\<close>, yields \<open>undefined\<close> for a property it does not have. A
  request that no parser has given a body, whose \<open>req.body\<close> is \<open>undefined\<close>, is the
  \<open>None\<close> of \<open>js_body option\<close>; destructuring it throws (see \<open>handle_check_availability\<close>
  and \<open>handle_create_booking\<close> below).
\<close>

type_synonym js_body = "string \<rightharpoonup> jsval"

type_synonym js_env = "string \<rightharpoonup> string"

definition field :: "js_body \<Rightarrow> string \<Rightarrow> jsval" where
  "field body k = (case body k of None \<Rightarrow> JUndefined | Some v \<Rightarrow> v)"

text \<open>\<open>!v\<close> for an environment variable: unset, or set to the empty string.\<close>

definition env_truthy :: "string option \<Rightarrow> bool" where
  "env_truthy v = (case v of None \<Rightarrow> False | Some s \<Rightarrow> s \<noteq> [])"

section \<open>The host's Date and coercion built-ins\<close>

datatype js_error =
    TypeError
  | RangeError
  | GaxiosError jsval  \<comment> \<open>a rejected remote call; the argument is \<open>error.response\<close>\<close>

text \<open>
  \<open>Date.parse\<close> accepts implementation-defined formats, and the conversion of an array
  or object to a primitive runs the host's \<open>valueOf\<close>/\<open>toString\<close>/\<open>join\<close>; both are
  parameters, as is the formatting done by \<open>toISOString\<close> on a valid time value.
  A time value is a number of milliseconds since the epoch; \<open>None\<close> is the NaN of an
  invalid Date.
\<close>

record js_runtime =
  Date_parse :: "string \<Rightarrow> int option"
  Date_toISOString :: "int \<Rightarrow> string"
  ToPrimitive :: "jsval \<Rightarrow> js_error + jsval"

text \<open>TimeClip: a non-finite number or one beyond 8.64e15 ms is NaN; otherwise truncate.\<close>

definition time_clip :: "jsnum \<Rightarrow> int option" where
  "time_clip n =
     (case n of
        Fin r \<Rightarrow>
          (if \<bar>r\<bar> > 8640000000000000 then None
           else Some (if r < 0 then \<lceil>r\<rceil> else \<lfloor>r\<rfloor>))
      | _ \<Rightarrow> None)"

text \<open>ToNumber of a primitive that is not a string.\<close>

fun to_number :: "jsval \<Rightarrow> jsnum" where
  "to_number JNull = Fin 0"
| "to_number (JBool b) = Fin (if b then 1 else 0)"
| "to_number (JNum n) = n"
| "to_number v = NaN"

text \<open>
  ToPrimitive: primitives are returned as they are, arrays and objects go through the
  host, which throws a TypeError when no primitive is obtained.
\<close>

definition to_primitive :: "js_runtime \<Rightarrow> jsval \<Rightarrow> js_error + jsval" where
  "to_primitive rt v =
     (case v of
        JArr xs \<Rightarrow>
          (case ToPrimitive rt v of
             Inl e \<Rightarrow> Inl e
           | Inr (JArr ys) \<Rightarrow> Inl TypeError
           | Inr (JObj ps) \<Rightarrow> Inl TypeError
           | Inr p \<Rightarrow> Inr p)
      | JObj qs \<Rightarrow>
          (case ToPrimitive rt v of
             Inl e \<Rightarrow> Inl e
           | Inr (JArr ys) \<Rightarrow> Inl TypeError
           | Inr (JObj ps) \<Rightarrow> Inl TypeError
           | Inr p \<Rightarrow> Inr p)
      | _ \<Rightarrow> Inr v)"

text \<open>
  \<open>new Date(value)\<close> with one argument, followed by \<open>getTime()\<close>: the time value of the
  Date, \<open>None\<close> for an invalid Date.
\<close>

definition new_Date :: "js_runtime \<Rightarrow> jsval \<Rightarrow> js_error + int option" where
  "new_Date rt v =
     (case to_primitive rt v of
        Inl e \<Rightarrow> Inl e
      | Inr (JStr s) \<Rightarrow>
          Inr (case Date_parse rt s of None \<Rightarrow> None | Some t \<Rightarrow> time_clip (Fin (of_int t)))
      | Inr p \<Rightarrow> Inr (time_clip (to_number p)))"

section \<open>The remote calendar\<close>

text \<open>
  The parameters of \<open>events.list\<close> and \<open>events.insert\<close>, and what the client resolves to:
  \<open>response.data.items\<close> (absent, or an array of events) for a listing,
  \<open>response.data.htmlLink\<close> and \<open>response.data.id\<close> for an insertion. A rejected call
  is an error value.
\<close>

record call_params =
  calendarId :: string

record list_params = call_params +
  timeMin :: jsval
  timeMax :: string
  maxResults :: nat
  singleEvents :: bool
  orderBy :: string

record insert_params = call_params +
  resource :: jsval
  sendNotifications :: bool

record events_data =
  items :: "jsval list option"

record event_data =
  htmlLink :: jsval
  id' :: jsval

record calendar_api =
  events_list :: "list_params \<Rightarrow> js_error + events_data"
  events_insert :: "insert_params \<Rightarrow> js_error + event_data"

text \<open>The remote calls a request has made, in order.\<close>

datatype remote_call = ListCall list_params | InsertCall insert_params

text \<open>
  The global \<open>calendarClient\<close>: declared without a value, set to the client by a
  successful initialization and to \<open>null\<close> by one that threw.
\<close>

datatype client_handle = Unset | Null | Client calendar_api

section \<open>Responses\<close>

record http_response =
  status :: nat
  json :: jsval

definition e_acute :: string where
  "e_acute = [CHR 0xC3, CHR 0xA9]"

definition o_circ :: string where
  "o_circ = [CHR 0xC3, CHR 0xB4]"

definition a_grave :: string where
  "a_grave = [CHR 0xC3, CHR 0xA0]"

definition msg_unavailable :: string where
  "msg_unavailable =
     ''Service Google Calendar indisponible. Veuillez r'' @ e_acute @ ''essayer plus tard.''"

definition msg_config :: string where
  "msg_config =
     ''Configuration du calendrier invalide c'' @ o_circ @ ''t'' @ e_acute @ '' serveur.''"

definition msg_start_missing :: string where
  "msg_start_missing =
     ''Date et heure de d'' @ e_acute @ ''but manquantes pour la v'' @ e_acute @ ''rification.''"

definition msg_check_failed :: string where
  "msg_check_failed =
     ''Erreur serveur lors de la v'' @ e_acute @ ''rification de disponibilit'' @ e_acute @ ''.''"

definition msg_required :: string where
  "msg_required =
     ''Les informations de r'' @ e_acute @ ''sum'' @ e_acute @ '', date/heure de d'' @ e_acute
       @ ''but et de fin sont requises.''"

definition msg_slot_taken :: string where
  "msg_slot_taken =
     ''Ce cr'' @ e_acute @ ''neau horaire est d'' @ e_acute @ ''j'' @ a_grave @ '' occup''
       @ e_acute @ ''. Veuillez choisir un autre cr'' @ e_acute @ ''neau.''"

definition msg_create_failed :: string where
  "msg_create_failed =
     ''Erreur serveur lors de la cr'' @ e_acute @ ''ation de la r'' @ e_acute @ ''servation.''"

text \<open>\<open>res.status(n).json({ error: msg })\<close>.\<close>

definition error_response :: "nat \<Rightarrow> string \<Rightarrow> http_response" where
  "error_response n msg = \<lparr>status = n, json = JObj [(''error'', JStr msg)]\<rparr>"

section \<open>Initialization and the guard of the protected routes\<close>

text \<open>
  A request is modelled from the point where Express hands it to the chain of a protected
  route, after the CORS filter and the body parsers. A route takes the environment as it
  is at request time, the client handle and the body, and returns the response together
  with the remote calls it made. \<open>route_check_availability\<close> and \<open>route_create_booking\<close>
  are the routes on a parsed body; \<open>post_check_availability\<close> and \<open>post_create_booking\<close>
  are the routes on any request, with or without a parsed body. What the source writes to
  the console has no effect on either and is left out.
\<close>

text \<open>
  \<open>initializeGoogleCalendar\<close>: returns whether it succeeded, and the new value of
  \<open>calendarClient\<close>. With a credential or the calendar identifier missing it returns
  before touching the handle; \<open>getClient\<close> stands for the authentication and the
  construction of the client from the two credentials, which may throw.
\<close>

definition initializeGoogleCalendar ::
  "js_env \<Rightarrow> (string option \<Rightarrow> string option \<Rightarrow> js_error + calendar_api) \<Rightarrow> client_handle
     \<Rightarrow> bool \<times> client_handle" where
  "initializeGoogleCalendar env getClient calendarClient =
     (let GOOGLE_CLIENT_EMAIL = env ''GOOGLE_CLIENT_EMAIL'';
          GOOGLE_PRIVATE_KEY = env ''GOOGLE_PRIVATE_KEY'';
          CALENDAR_ID = env ''CALENDAR_ID''
      in if env_truthy GOOGLE_CLIENT_EMAIL then
           if env_truthy GOOGLE_PRIVATE_KEY then
             if env_truthy CALENDAR_ID then
               (case getClient GOOGLE_CLIENT_EMAIL GOOGLE_PRIVATE_KEY of
                  Inr api \<Rightarrow> (True, Client api)
                | Inl e \<Rightarrow> (False, Null))
             else (False, calendarClient)
           else (False, calendarClient)
         else (False, calendarClient))"

text \<open>\<open>startServer\<close> runs the initialization once, on the handle as declared.\<close>

definition startServer ::
  "js_env \<Rightarrow> (string option \<Rightarrow> string option \<Rightarrow> js_error + calendar_api) \<Rightarrow> client_handle" where
  "startServer env getClient = snd (initializeGoogleCalendar env getClient Unset)"

text \<open>
  The middleware \<open>ensureCalendarInitialized\<close>: answers 503 when \<open>!calendarClient\<close>,
  otherwise attaches the client to the request and runs the route.
\<close>

definition ensureCalendarInitialized ::
  "client_handle \<Rightarrow> (calendar_api \<Rightarrow> http_response \<times> remote_call list)
     \<Rightarrow> http_response \<times> remote_call list" where
  "ensureCalendarInitialized calendarClient next =
     (case calendarClient of
        Client calendar \<Rightarrow> next calendar
      | _ \<Rightarrow> (error_response 503 msg_unavailable, []))"

section \<open>POST /api/check-availability\<close>

text \<open>
  The first three statements of the guarded region: the Date of the start, the Date
  thirty minutes later, and its ISO string, which \<open>toISOString\<close> refuses with a
  RangeError for an invalid Date.
\<close>

definition probe_timeMax :: "js_runtime \<Rightarrow> jsval \<Rightarrow> js_error + string" where
  "probe_timeMax rt startDateTimeISO =
     (case new_Date rt startDateTimeISO of
        Inl e \<Rightarrow> Inl e
      | Inr startTime \<Rightarrow>
          (let endTime =
                 (case startTime of
                    None \<Rightarrow> None
                  | Some t \<Rightarrow> time_clip (Fin (of_int (t + 30 * 60 * 1000))))
           in case endTime of
                None \<Rightarrow> Inl RangeError
              | Some t \<Rightarrow> Inr (Date_toISOString rt t)))"

definition probe_params :: "string \<Rightarrow> jsval \<Rightarrow> string \<Rightarrow> list_params" where
  "probe_params CALENDAR_ID startDateTimeISO timeMaxISO =
     \<lparr>calendarId = CALENDAR_ID, timeMin = startDateTimeISO, timeMax = timeMaxISO,
      maxResults = 1, singleEvents = True, orderBy = ''startTime''\<rparr>"

definition check_availability ::
  "js_runtime \<Rightarrow> js_env \<Rightarrow> calendar_api \<Rightarrow> js_body \<Rightarrow> http_response \<times> remote_call list" where
  "check_availability rt env calendar body =
     (let startDateTimeISO = field body ''startDateTimeISO'' in
      case env ''CALENDAR_ID'' of
        None \<Rightarrow> (error_response 500 msg_config, [])
      | Some CALENDAR_ID \<Rightarrow>
          if CALENDAR_ID = [] then (error_response 500 msg_config, [])
          else if \<not> truthy startDateTimeISO then (error_response 400 msg_start_missing, [])
          else
            (case probe_timeMax rt startDateTimeISO of
               Inl e \<Rightarrow> (error_response 500 msg_check_failed, [])
             | Inr timeMaxISO \<Rightarrow>
                 (let params = probe_params CALENDAR_ID startDateTimeISO timeMaxISO in
                  case events_list calendar params of
                    Inl e \<Rightarrow> (error_response 500 msg_check_failed, [ListCall params])
                  | Inr data \<Rightarrow>
                      (let isAvailable =
                             \<not> (case items data of None \<Rightarrow> False | Some xs \<Rightarrow> length xs > 0)
                       in (\<lparr>status = 200, json = JObj [(''available'', JBool isAvailable)]\<rparr>,
                           [ListCall params])))))"

definition route_check_availability ::
  "js_runtime \<Rightarrow> js_env \<Rightarrow> client_handle \<Rightarrow> js_body \<Rightarrow> http_response \<times> remote_call list" where
  "route_check_availability rt env calendarClient body =
     ensureCalendarInitialized calendarClient (\<lambda>calendar. check_availability rt env calendar body)"

section \<open>POST /api/create-booking\<close>

text \<open>The event submitted for insertion. The \<open>attendees\<close> line of the source is a comment.\<close>

definition event :: "jsval \<Rightarrow> jsval \<Rightarrow> jsval \<Rightarrow> jsval \<Rightarrow> jsval" where
  "event summary startDateTimeISO endDateTimeISO description =
     JObj [
       (''summary'', summary),
       (''start'', JObj [(''dateTime'', startDateTimeISO), (''timeZone'', JStr ''Europe/Paris'')]),
       (''end'', JObj [(''dateTime'', endDateTimeISO), (''timeZone'', JStr ''Europe/Paris'')]),
       (''description'', description),
       (''reminders'', JObj [
          (''useDefault'', JBool False),
          (''overrides'', JArr [
             JObj [(''method'', JStr ''email''), (''minutes'', JNum (Fin (24 * 60)))],
             JObj [(''method'', JStr ''popup''), (''minutes'', JNum (Fin 10))]])])]"

text \<open>
  The test of the catch block: \<open>error.response && error.response.data\<close>, then
  \<open>error.response.data.error && error.response.data.error.code === 409\<close>.
\<close>

definition response_of :: "js_error \<Rightarrow> jsval" where
  "response_of e = (case e of GaxiosError r \<Rightarrow> r | _ \<Rightarrow> JUndefined)"

definition is_conflict :: "js_error \<Rightarrow> bool" where
  "is_conflict e =
     (if truthy (response_of e) then
        if truthy (get (response_of e) ''data'') then
          if truthy (get (get (response_of e) ''data'') ''error'') then
            get (get (get (response_of e) ''data'') ''error'') ''code'' = JNum (Fin 409)
          else False
        else False
      else False)"

definition booking_params :: "string \<Rightarrow> js_body \<Rightarrow> insert_params" where
  "booking_params CALENDAR_ID body =
     \<lparr>calendarId = CALENDAR_ID,
      resource = event (field body ''summary'') (field body ''startDateTimeISO'')
                   (field body ''endDateTimeISO'') (field body ''description''),
      sendNotifications = True\<rparr>"

definition create_booking ::
  "js_env \<Rightarrow> calendar_api \<Rightarrow> js_body \<Rightarrow> http_response \<times> remote_call list" where
  "create_booking env calendar body =
     (let summary = field body ''summary'';
          startDateTimeISO = field body ''startDateTimeISO'';
          endDateTimeISO = field body ''endDateTimeISO''
      in if \<not> truthy summary then (error_response 400 msg_required, [])
         else if \<not> truthy startDateTimeISO then (error_response 400 msg_required, [])
         else if \<not> truthy endDateTimeISO then (error_response 400 msg_required, [])
         else
           (case env ''CALENDAR_ID'' of
              None \<Rightarrow> (error_response 500 msg_config, [])
            | Some CALENDAR_ID \<Rightarrow>
                if CALENDAR_ID = [] then (error_response 500 msg_config, [])
                else
                  (let params = booking_params CALENDAR_ID body in
                   case events_insert calendar params of
                     Inr data \<Rightarrow>
                       (\<lparr>status = 200,
                         json = JObj [(''success'', JBool True), (''eventLink'', htmlLink data),
                                      (''eventId'', id' data)]\<rparr>,
                        [InsertCall params])
                   | Inl error \<Rightarrow>
                       (if is_conflict error then
                          (error_response 409 msg_slot_taken, [InsertCall params])
                        else (error_response 500 msg_create_failed, [InsertCall params])))))"

definition route_create_booking ::
  "js_env \<Rightarrow> client_handle \<Rightarrow> js_body \<Rightarrow> http_response \<times> remote_call list" where
  "route_create_booking env calendarClient body =
     ensureCalendarInitialized calendarClient (\<lambda>calendar. create_booking env calendar body)"

section \<open>Requests with or without a parsed body\<close>

text \<open>
  Both handlers begin by destructuring \<open>req.body\<close>, before their \<open>try\<close>. On a request
  without a parsed body that statement throws a TypeError which nothing in the handler
  catches: the handler sends no answer of its own and has made no remote call (\<open>Inl\<close>;
  what the client then receives is decided by Express, not by the source). On a parsed
  body the handler proceeds as \<open>check_availability\<close> or \<open>create_booking\<close>.
\<close>

definition handle_check_availability ::
  "js_runtime \<Rightarrow> js_env \<Rightarrow> calendar_api \<Rightarrow> js_body option
     \<Rightarrow> js_error + http_response \<times> remote_call list" where
  "handle_check_availability rt env calendar req_body =
     (case req_body of
        None \<Rightarrow> Inl TypeError
      | Some body \<Rightarrow> Inr (check_availability rt env calendar body))"

definition handle_create_booking ::
  "js_env \<Rightarrow> calendar_api \<Rightarrow> js_body option
     \<Rightarrow> js_error + http_response \<times> remote_call list" where
  "handle_create_booking env calendar req_body =
     (case req_body of
        None \<Rightarrow> Inl TypeError
      | Some body \<Rightarrow> Inr (create_booking env calendar body))"

text \<open>
  The whole chain of a route: the guard of \<open>ensureCalendarInitialized\<close>, which answers
  503 without looking at the request, then the handler.
\<close>

definition post_check_availability ::
  "js_runtime \<Rightarrow> js_env \<Rightarrow> client_handle \<Rightarrow> js_body option
     \<Rightarrow> js_error + http_response \<times> remote_call list" where
  "post_check_availability rt env calendarClient req_body =
     (case calendarClient of
        Client calendar \<Rightarrow> handle_check_availability rt env calendar req_body
      | _ \<Rightarrow> Inr (error_response 503 msg_unavailable, []))"

definition post_create_booking ::
  "js_env \<Rightarrow> client_handle \<Rightarrow> js_body option
     \<Rightarrow> js_error + http_response \<times> remote_call list" where
  "post_create_booking env calendarClient req_body =
     (case calendarClient of
        Client calendar \<Rightarrow> handle_create_booking env calendar req_body
      | _ \<Rightarrow> Inr (error_response 503 msg_unavailable, []))"

text \<open>The remote calls of a request, none when the handler threw before making one.\<close>

definition calls_made :: "js_error + http_response \<times> remote_call list \<Rightarrow> remote_call list" where
  "calls_made outcome = (case outcome of Inl e \<Rightarrow> [] | Inr (response, calls) \<Rightarrow> calls)"

section \<open>The error code as the specification names it\<close>

text \<open>
  The specification speaks of the remote error carrying \<open>error.response.data.error.code\<close>.
  \<open>path v ks\<close> follows the property names \<open>ks\<close> from \<open>v\<close> through nested objects and
  is \<open>None\<close> where a property is missing; \<open>error_code\<close> is the value at that path. It is
  written from the specification's words and compared with \<open>is_conflict\<close> below.
\<close>

fun path :: "jsval \<Rightarrow> string list \<Rightarrow> jsval option" where
  "path v [] = Some v"
| "path (JObj ps) (k # ks) = (case map_of ps k of None \<Rightarrow> None | Some w \<Rightarrow> path w ks)"
| "path v (k # ks) = None"

definition error_code :: "js_error \<Rightarrow> jsval option" where
  "error_code e = path (response_of e) [''data'', ''error'', ''code'']"

section \<open>Sample inputs\<close>

text \<open>
  A host table covering one date string, three calendars (one free; one of the salon
  whose only event fills the window from 10:00 to 10:30 UTC on 2024-06-01, which lists
  that event for that window and answers an insertion with a conflict; one whose calls
  are refused), two environments and four request bodies.
\<close>

definition sample_runtime :: js_runtime where
  "sample_runtime =
     \<lparr>Date_parse = (\<lambda>s. if s = ''2024-06-01T10:00:00Z'' then Some 1717236000000 else None),
      Date_toISOString = (\<lambda>t. if t = 1717237800000 then ''2024-06-01T10:30:00.000Z'' else []),
      ToPrimitive = (\<lambda>v. Inr (JStr ''[object Object]''))\<rparr>"

definition free_calendar :: calendar_api where
  "free_calendar =
     \<lparr>events_list = (\<lambda>p. Inr \<lparr>items = Some []\<rparr>),
      events_insert = (\<lambda>p. Inr \<lparr>htmlLink = JStr ''https://www.google.com/calendar/event?eid=e1'',
                                   id' = JStr ''e1''\<rparr>)\<rparr>"

definition busy_calendar :: calendar_api where
  "busy_calendar =
     \<lparr>events_list = (\<lambda>p.
        if calendarId p = ''salon@group.calendar.google.com''
           \<and> timeMin p = JStr ''2024-06-01T10:00:00Z''
           \<and> timeMax p = ''2024-06-01T10:30:00.000Z''
        then Inr \<lparr>items = Some [JObj [(''id'', JStr ''e0'')]]\<rparr>
        else Inr \<lparr>items = Some []\<rparr>),
      events_insert = (\<lambda>p. Inl (GaxiosError
        (JObj [(''status'', JNum (Fin 409)),
               (''data'', JObj [(''error'', JObj [(''code'', JNum (Fin 409))])])])))\<rparr>"

definition refusing_calendar :: calendar_api where
  "refusing_calendar =
     \<lparr>events_list = (\<lambda>p. Inl (GaxiosError JUndefined)),
      events_insert = (\<lambda>p. Inl (GaxiosError
        (JObj [(''status'', JNum (Fin 403)),
               (''data'', JObj [(''error'', JObj [(''code'', JNum (Fin 403))])])])))\<rparr>"

definition sample_env :: js_env where
  "sample_env = [''CALENDAR_ID'' \<mapsto> ''salon@group.calendar.google.com'']"

definition env_without_calendar :: js_env where
  "env_without_calendar = Map.empty"

definition empty_body :: js_body where
  "empty_body = Map.empty"

definition check_body :: js_body where
  "check_body = [''startDateTimeISO'' \<mapsto> JStr ''2024-06-01T10:00:00Z'']"

definition unparseable_body :: js_body where
  "unparseable_body = [''startDateTimeISO'' \<mapsto> JStr ''demain matin'']"

definition booking_body :: js_body where
  "booking_body =
     [''summary'' \<mapsto> JStr ''Consult'',
      ''startDateTimeISO'' \<mapsto> JStr ''2024-06-01T10:00:00Z'',
      ''endDateTimeISO'' \<mapsto> JStr ''2024-06-01T10:30:00Z'',
      ''email'' \<mapsto> JStr ''client@example.com'']"

section \<open>Properties of the routes\<close>

subsection \<open>Auxiliary facts\<close>

lemma time_clip_of_int:
  "time_clip (Fin (of_int n)) = (if \<bar>n\<bar> > 8640000000000000 then None else Some n)"
proof -
  have "(\<bar>(of_int n :: rat)\<bar> > 8640000000000000) = (\<bar>n\<bar> > 8640000000000000)"
    by (metis of_int_abs of_int_less_iff of_int_numeral)
  then show ?thesis by (simp add: time_clip_def)
qed

lemma probe_timeMax_cases:
  "probe_timeMax rt v =
     (case new_Date rt v of
        Inl e \<Rightarrow> Inl e
      | Inr None \<Rightarrow> Inl RangeError
      | Inr (Some t) \<Rightarrow>
          if \<bar>t + 1800000\<bar> > 8640000000000000 then Inl RangeError
          else Inr (Date_toISOString rt (t + 1800000)))"
proof -
  have clip: "time_clip (Fin (of_int (t + 30 * 60 * 1000))) =
      (if \<bar>t + 1800000\<bar> > 8640000000000000 then None else Some (t + 1800000))" for t :: int
    using time_clip_of_int [of "t + 1800000"] by simp
  show ?thesis
    unfolding probe_timeMax_def Let_def clip
    by (simp split: sum.splits option.splits)
qed

lemma new_Date_string:
  "new_Date rt (JStr s) =
     Inr (case Date_parse rt s of None \<Rightarrow> None | Some t \<Rightarrow> time_clip (Fin (of_int t)))"
  by (simp add: new_Date_def to_primitive_def)

lemma probe_timeMax_unparseable:
  "Date_parse rt s = None \<Longrightarrow> probe_timeMax rt (JStr s) = Inl RangeError"
  by (simp add: probe_timeMax_cases new_Date_string)

lemma path_Cons_Some:
  "path v (k # ks) = Some w \<Longrightarrow> truthy v \<and> path (get v k) ks = Some w"
  by (cases v) (auto split: option.splits)

lemma path_get:
  "get v k \<noteq> JUndefined \<Longrightarrow> path v (k # ks) = path (get v k) ks"
  by (cases v) (auto split: option.splits)

lemma truthy_defined: "truthy v \<Longrightarrow> v \<noteq> JUndefined"
  by auto

lemma is_conflict_iff_error_code:
  "is_conflict e \<longleftrightarrow> error_code e = Some (JNum (Fin 409))"
proof
  assume c: "is_conflict e"
  let ?r = "response_of e"
  from c have d: "truthy (get ?r ''data'')"
    and er: "truthy (get (get ?r ''data'') ''error'')"
    and code: "get (get (get ?r ''data'') ''error'') ''code'' = JNum (Fin 409)"
    by (auto simp: is_conflict_def split: if_splits)
  have "path ?r [''data'', ''error'', ''code''] = path (get ?r ''data'') [''error'', ''code'']"
    using d by (intro path_get truthy_defined)
  also have "\<dots> = path (get (get ?r ''data'') ''error'') [''code'']"
    using er by (intro path_get truthy_defined)
  also have "\<dots> = path (get (get (get ?r ''data'') ''error'') ''code'') []"
    by (rule path_get) (simp add: code)
  finally show "error_code e = Some (JNum (Fin 409))"
    by (simp add: error_code_def code)
next
  assume "error_code e = Some (JNum (Fin 409))"
  then have p: "path (response_of e) [''data'', ''error'', ''code''] = Some (JNum (Fin 409))"
    by (simp add: error_code_def)
  let ?r = "response_of e"
  from path_Cons_Some [OF p]
  have r: "truthy ?r" and p1: "path (get ?r ''data'') [''error'', ''code''] = Some (JNum (Fin 409))"
    by simp_all
  from path_Cons_Some [OF p1]
  have d: "truthy (get ?r ''data'')"
    and p2: "path (get (get ?r ''data'') ''error'') [''code''] = Some (JNum (Fin 409))"
    by simp_all
  from path_Cons_Some [OF p2]
  have er: "truthy (get (get ?r ''data'') ''error'')"
    and code: "get (get (get ?r ''data'') ''error'') ''code'' = JNum (Fin 409)"
    by simp_all
  show "is_conflict e"
    using r d er code by (simp add: is_conflict_def)
qed

lemma ready_check:
  "route_check_availability rt env (Client calendar) body = check_availability rt env calendar body"
  by (simp add: route_check_availability_def ensureCalendarInitialized_def)

lemma ready_create:
  "route_create_booking env (Client calendar) body = create_booking env calendar body"
  by (simp add: route_create_booking_def ensureCalendarInitialized_def)

lemma uninitialized_check:
  "calendarClient = Unset \<or> calendarClient = Null \<Longrightarrow>
   route_check_availability rt env calendarClient body = (error_response 503 msg_unavailable, [])"
  by (auto simp: route_check_availability_def ensureCalendarInitialized_def)

lemma uninitialized_create:
  "calendarClient = Unset \<or> calendarClient = Null \<Longrightarrow>
   route_create_booking env calendarClient body = (error_response 503 msg_unavailable, [])"
  by (auto simp: route_create_booking_def ensureCalendarInitialized_def)

lemma failed_start_uninitialized:
  "\<not> fst (initializeGoogleCalendar env getClient Unset) \<Longrightarrow>
   startServer env getClient = Unset \<or> startServer env getClient = Null"
  by (auto simp: startServer_def initializeGoogleCalendar_def Let_def split: sum.splits if_splits)

lemma started_ready_has_calendar:
  "startServer env getClient = Client api \<Longrightarrow> env_truthy (env ''CALENDAR_ID'')"
  by (auto simp: startServer_def initializeGoogleCalendar_def Let_def split: sum.splits if_splits)

lemma check_availability_configured:
  assumes "env ''CALENDAR_ID'' = Some cid" and "cid \<noteq> []"
    and "truthy (field body ''startDateTimeISO'')"
  shows "check_availability rt env calendar body =
     (case probe_timeMax rt (field body ''startDateTimeISO'') of
        Inl e \<Rightarrow> (error_response 500 msg_check_failed, [])
      | Inr timeMaxISO \<Rightarrow>
          (case events_list calendar
                  (probe_params cid (field body ''startDateTimeISO'') timeMaxISO) of
             Inl e \<Rightarrow>
               (error_response 500 msg_check_failed,
                [ListCall (probe_params cid (field body ''startDateTimeISO'') timeMaxISO)])
           | Inr data \<Rightarrow>
               (\<lparr>status = 200,
                 json = JObj [(''available'',
                   JBool (case items data of None \<Rightarrow> True | Some xs \<Rightarrow> xs = []))]\<rparr>,
                [ListCall (probe_params cid (field body ''startDateTimeISO'') timeMaxISO)])))"
  using assms
  by (simp add: check_availability_def Let_def split: sum.splits option.splits)

lemma create_booking_present:
  assumes "truthy (field body ''summary'')" and "truthy (field body ''startDateTimeISO'')"
    and "truthy (field body ''endDateTimeISO'')"
  shows "create_booking env calendar body =
     (case env ''CALENDAR_ID'' of
        None \<Rightarrow> (error_response 500 msg_config, [])
      | Some cid \<Rightarrow>
          if cid = [] then (error_response 500 msg_config, [])
          else
            (case events_insert calendar (booking_params cid body) of
               Inr data \<Rightarrow>
                 (\<lparr>status = 200,
                   json = JObj [(''success'', JBool True), (''eventLink'', htmlLink data),
                                (''eventId'', id' data)]\<rparr>,
                  [InsertCall (booking_params cid body)])
             | Inl error \<Rightarrow>
                 (if is_conflict error then
                    (error_response 409 msg_slot_taken, [InsertCall (booking_params cid body)])
                  else (error_response 500 msg_create_failed, [InsertCall (booking_params cid body)]))))"
  using assms by (simp add: create_booking_def Let_def split: option.splits)

lemma create_booking_missing:
  "\<not> truthy (field body ''summary'') \<or> \<not> truthy (field body ''startDateTimeISO'')
     \<or> \<not> truthy (field body ''endDateTimeISO'') \<Longrightarrow>
   create_booking env calendar body = (error_response 400 msg_required, [])"
  by (auto simp: create_booking_def Let_def)

lemma create_booking_calls:
  "InsertCall p \<in> set (snd (create_booking env calendar body)) \<Longrightarrow>
   \<exists>cid. env ''CALENDAR_ID'' = Some cid \<and> cid \<noteq> [] \<and> p = booking_params cid body
     \<and> truthy (field body ''summary'') \<and> truthy (field body ''startDateTimeISO'')
     \<and> truthy (field body ''endDateTimeISO'')"
  by (auto simp: create_booking_def Let_def split: if_splits option.splits sum.splits)

lemma route_create_calls:
  "InsertCall p \<in> set (snd (route_create_booking env calendarClient body)) \<Longrightarrow>
   \<exists>cid. p = booking_params cid body"
  by (cases calendarClient)
     (auto simp: route_create_booking_def ensureCalendarInitialized_def dest: create_booking_calls)

lemma post_check_parsed:
  "post_check_availability rt env calendarClient (Some body)
     = Inr (route_check_availability rt env calendarClient body)"
  by (cases calendarClient)
     (simp_all add: post_check_availability_def handle_check_availability_def
        route_check_availability_def ensureCalendarInitialized_def)

lemma post_create_parsed:
  "post_create_booking env calendarClient (Some body)
     = Inr (route_create_booking env calendarClient body)"
  by (cases calendarClient)
     (simp_all add: post_create_booking_def handle_create_booking_def
        route_create_booking_def ensureCalendarInitialized_def)

lemma post_no_body:
  "post_check_availability rt env (Client calendar) None = Inl TypeError"
  "post_create_booking env (Client calendar) None = Inl TypeError"
  by (simp_all add: post_check_availability_def handle_check_availability_def
        post_create_booking_def handle_create_booking_def)

lemma post_uninitialized:
  assumes "calendarClient = Unset \<or> calendarClient = Null"
  shows "post_check_availability rt env calendarClient req_body
           = Inr (error_response 503 msg_unavailable, [])"
    and "post_create_booking env calendarClient req_body
           = Inr (error_response 503 msg_unavailable, [])"
  using assms by (auto simp: post_check_availability_def post_create_booking_def)

lemma calls_made_Inr: "calls_made (Inr r) = snd r"
  by (cases r) (simp add: calls_made_def)

subsection \<open>The claims\<close>

text \<open>
  Claim C1. A request to POST /api/check-availability with the client ready, the calendar
  identifier configured and \<open>startDateTimeISO\<close> present is answered 200 with
  \<open>available = true\<close> exactly when the start has a valid time value \<open>t\<close>, the end of
  the window \<open>t + 30 min\<close> is a valid time value too, and the listing of the configured
  calendar with \<open>timeMin\<close> the start as received, \<open>timeMax\<close> the ISO string of
  \<open>t + 30 min\<close>, \<open>maxResults = 1\<close>, \<open>singleEvents = true\<close> and \<open>orderBy = startTime\<close>
  resolves with no event (no \<open>items\<close>, or an empty array). Where that listing resolves
  with at least one event the answer is 200 with \<open>available = false\<close>. A remote call of
  the request is that listing and no other, and it is made once.
\<close>
theorem check_availability_iff_no_events:
  assumes "env ''CALENDAR_ID'' = Some cid" and "cid \<noteq> []"
    and "truthy (field body ''startDateTimeISO'')"
  shows
    "(fst (route_check_availability rt env (Client calendar) body) =
        \<lparr>status = 200, json = JObj [(''available'', JBool True)]\<rparr>
      \<longleftrightarrow>
      (\<exists>t data.
         new_Date rt (field body ''startDateTimeISO'') = Inr (Some t) \<and>
         \<bar>t + 1800000\<bar> \<le> 8640000000000000 \<and>
         events_list calendar
           \<lparr>calendarId = cid,
            timeMin = field body ''startDateTimeISO'',
            timeMax = Date_toISOString rt (t + 1800000),
            maxResults = 1, singleEvents = True, orderBy = ''startTime''\<rparr> = Inr data \<and>
         (case items data of None \<Rightarrow> True | Some xs \<Rightarrow> xs = [])))
     \<and>
     (\<forall>t x xs.
         new_Date rt (field body ''startDateTimeISO'') = Inr (Some t) \<and>
         \<bar>t + 1800000\<bar> \<le> 8640000000000000 \<and>
         events_list calendar
           \<lparr>calendarId = cid,
            timeMin = field body ''startDateTimeISO'',
            timeMax = Date_toISOString rt (t + 1800000),
            maxResults = 1, singleEvents = True, orderBy = ''startTime''\<rparr>
           = Inr \<lparr>items = Some (x # xs)\<rparr>
         \<longrightarrow>
         route_check_availability rt env (Client calendar) body =
           (\<lparr>status = 200, json = JObj [(''available'', JBool False)]\<rparr>,
            [ListCall
               \<lparr>calendarId = cid,
                timeMin = field body ''startDateTimeISO'',
                timeMax = Date_toISOString rt (t + 1800000),
                maxResults = 1, singleEvents = True, orderBy = ''startTime''\<rparr>]))
     \<and>
     (\<forall>c. c \<in> set (snd (route_check_availability rt env (Client calendar) body)) \<longrightarrow>
        (\<exists>t. new_Date rt (field body ''startDateTimeISO'') = Inr (Some t) \<and>
           \<bar>t + 1800000\<bar> \<le> 8640000000000000 \<and>
           snd (route_check_availability rt env (Client calendar) body) =
             [ListCall
                \<lparr>calendarId = cid,
                 timeMin = field body ''startDateTimeISO'',
                 timeMax = Date_toISOString rt (t + 1800000),
                 maxResults = 1, singleEvents = True, orderBy = ''startTime''\<rparr>]))"
  unfolding ready_check check_availability_configured [of env cid body, OF assms]
    probe_timeMax_cases probe_params_def
  by (auto simp: error_response_def split: sum.splits option.splits)

theorem check_availability_iff_no_events_witness:
  "sample_env ''CALENDAR_ID'' = Some ''salon@group.calendar.google.com'' \<and>
   truthy (field check_body ''startDateTimeISO'') \<and>
   fst (route_check_availability sample_runtime sample_env (Client free_calendar) check_body) =
     \<lparr>status = 200, json = JObj [(''available'', JBool True)]\<rparr> \<and>
   route_check_availability sample_runtime sample_env (Client busy_calendar) check_body =
     (\<lparr>status = 200, json = JObj [(''available'', JBool False)]\<rparr>,
      [ListCall
         \<lparr>calendarId = ''salon@group.calendar.google.com'',
          timeMin = JStr ''2024-06-01T10:00:00Z'',
          timeMax = ''2024-06-01T10:30:00.000Z'',
          maxResults = 1, singleEvents = True, orderBy = ''startTime''\<rparr>])"
proof -
  have env: "sample_env ''CALENDAR_ID'' = Some ''salon@group.calendar.google.com''"
    by (simp add: sample_env_def)
  have ne: "''salon@group.calendar.google.com'' \<noteq> []"
    by simp
  have start: "field check_body ''startDateTimeISO'' = JStr ''2024-06-01T10:00:00Z''"
    by (simp add: check_body_def field_def)
  have tr: "truthy (field check_body ''startDateTimeISO'')"
    by (simp add: start)
  have date: "new_Date sample_runtime (JStr ''2024-06-01T10:00:00Z'') = Inr (Some 1717236000000)"
    by (simp add: new_Date_string sample_runtime_def time_clip_def)
  have iso: "Date_toISOString sample_runtime 1717237800000 = ''2024-06-01T10:30:00.000Z''"
    by (simp add: sample_runtime_def)
  have free: "fst (route_check_availability sample_runtime sample_env (Client free_calendar) check_body) =
     \<lparr>status = 200, json = JObj [(''available'', JBool True)]\<rparr>"
    using check_availability_iff_no_events
        [where env = sample_env and body = check_body and rt = sample_runtime
           and calendar = free_calendar, OF env ne tr, THEN conjunct1] date
    by (simp add: start free_calendar_def)
  have busy: "route_check_availability sample_runtime sample_env (Client busy_calendar) check_body =
     (\<lparr>status = 200, json = JObj [(''available'', JBool False)]\<rparr>,
      [ListCall
         \<lparr>calendarId = ''salon@group.calendar.google.com'',
          timeMin = JStr ''2024-06-01T10:00:00Z'',
          timeMax = ''2024-06-01T10:30:00.000Z'',
          maxResults = 1, singleEvents = True, orderBy = ''startTime''\<rparr>])"
    using check_availability_iff_no_events
        [where env = sample_env and body = check_body and rt = sample_runtime
           and calendar = busy_calendar, OF env ne tr, THEN conjunct2, THEN conjunct1] date
    by (simp add: start busy_calendar_def iso)
  show ?thesis
    using env tr free busy by simp
qed

text \<open>
  Claim C2. A request to POST /api/create-booking with the client ready and the three
  required fields present, whose insertion was called and rejected by the remote
  calendar, is answered 409 with the slot-taken message of the source exactly when the
  error carries \<open>error.response.data.error.code\<close> equal to the number 409; every other
  rejection is answered 500 with the generic message of the source; and the insertion is
  the only remote call of the request, so nothing is retried.
\<close>
theorem create_booking_insert_failure:
  assumes "truthy (field body ''summary'')" and "truthy (field body ''startDateTimeISO'')"
    and "truthy (field body ''endDateTimeISO'')"
    and "InsertCall p \<in> set (snd (route_create_booking env (Client calendar) body))"
    and "events_insert calendar p = Inl error"
  shows
    "(fst (route_create_booking env (Client calendar) body) =
        \<lparr>status = 409,
          json = JObj [(''error'', JStr
            (''Ce cr'' @ [CHR 0xC3, CHR 0xA9] @ ''neau horaire est d'' @ [CHR 0xC3, CHR 0xA9] @ ''j'' @ [CHR 0xC3, CHR 0xA0]
             @ '' occup'' @ [CHR 0xC3, CHR 0xA9] @ ''. Veuillez choisir un autre cr'' @ [CHR 0xC3, CHR 0xA9]
             @ ''neau.''))]\<rparr>
        \<longleftrightarrow> error_code error = Some (JNum (Fin 409)))
     \<and> (error_code error \<noteq> Some (JNum (Fin 409)) \<longrightarrow>
          fst (route_create_booking env (Client calendar) body) =
            \<lparr>status = 500,
              json = JObj [(''error'', JStr
                (''Erreur serveur lors de la cr'' @ [CHR 0xC3, CHR 0xA9] @ ''ation de la r''
                 @ [CHR 0xC3, CHR 0xA9] @ ''servation.''))]\<rparr>)
     \<and> snd (route_create_booking env (Client calendar) body) = [InsertCall p]"
proof -
  from assms(4) obtain cid where cid: "env ''CALENDAR_ID'' = Some cid" "cid \<noteq> []"
    and p: "p = booking_params cid body"
    unfolding ready_create by (blast dest: create_booking_calls)
  have "create_booking env calendar body =
      (if is_conflict error then (error_response 409 msg_slot_taken, [InsertCall p])
       else (error_response 500 msg_create_failed, [InsertCall p]))"
    using assms(5) cid unfolding p
    by (simp add: create_booking_present [OF assms(1-3)])
  then show ?thesis
    unfolding ready_create is_conflict_iff_error_code
    by (simp add: error_response_def msg_slot_taken_def msg_create_failed_def
          e_acute_def a_grave_def)
qed

theorem create_booking_insert_failure_witness:
  "fst (route_create_booking sample_env (Client busy_calendar) booking_body) =
     \<lparr>status = 409,
       json = JObj [(''error'', JStr
         (''Ce cr'' @ [CHR 0xC3, CHR 0xA9] @ ''neau horaire est d'' @ [CHR 0xC3, CHR 0xA9] @ ''j'' @ [CHR 0xC3, CHR 0xA0]
          @ '' occup'' @ [CHR 0xC3, CHR 0xA9] @ ''. Veuillez choisir un autre cr'' @ [CHR 0xC3, CHR 0xA9]
          @ ''neau.''))]\<rparr> \<and>
   fst (route_create_booking sample_env (Client refusing_calendar) booking_body) =
     \<lparr>status = 500,
       json = JObj [(''error'', JStr
         (''Erreur serveur lors de la cr'' @ [CHR 0xC3, CHR 0xA9] @ ''ation de la r''
          @ [CHR 0xC3, CHR 0xA9] @ ''servation.''))]\<rparr> \<and>
   snd (route_create_booking sample_env (Client refusing_calendar) booking_body)
     = [InsertCall (booking_params ''salon@group.calendar.google.com'' booking_body)]"
proof -
  let ?p = "booking_params ''salon@group.calendar.google.com'' booking_body"
  have f: "truthy (field booking_body ''summary'')"
      "truthy (field booking_body ''startDateTimeISO'')"
      "truthy (field booking_body ''endDateTimeISO'')"
    by (simp_all add: booking_body_def field_def)
  have env: "sample_env ''CALENDAR_ID'' = Some ''salon@group.calendar.google.com''"
    by (simp add: sample_env_def)
  have called: "InsertCall ?p \<in> set (snd (route_create_booking sample_env (Client c) booking_body))"
    for c
    unfolding ready_create create_booking_present [OF f]
    by (simp add: env split: sum.splits)
  have busy: "events_insert busy_calendar ?p = Inl (GaxiosError
        (JObj [(''status'', JNum (Fin 409)),
               (''data'', JObj [(''error'', JObj [(''code'', JNum (Fin 409))])])]))"
    by (simp add: busy_calendar_def)
  have refusing: "events_insert refusing_calendar ?p = Inl (GaxiosError
        (JObj [(''status'', JNum (Fin 403)),
               (''data'', JObj [(''error'', JObj [(''code'', JNum (Fin 403))])])]))"
    by (simp add: refusing_calendar_def)
  show ?thesis
    using create_booking_insert_failure [OF f called busy]
      create_booking_insert_failure [OF f called refusing]
    by (simp add: error_code_def response_of_def)
qed

text \<open>
  Claim C3. With the client handle never set, set to \<open>null\<close>, or left by an
  initialization that reported failure, both protected routes answer 503 with the
  service-unavailable message, whatever the body and the environment are, and make no
  remote call: the answer does not depend on the fields, so none has been validated.
\<close>
theorem uninitialized_client_rejected:
  assumes "calendarClient = Unset \<or> calendarClient = Null
     \<or> (\<not> fst (initializeGoogleCalendar env0 getClient Unset)
          \<and> calendarClient = startServer env0 getClient)"
  shows "route_check_availability rt env calendarClient body
           = (error_response 503 msg_unavailable, [])
     \<and> route_create_booking env calendarClient body
           = (error_response 503 msg_unavailable, [])"
proof -
  from assms have "calendarClient = Unset \<or> calendarClient = Null"
    using failed_start_uninitialized [of env0 getClient] by auto
  then show ?thesis
    by (simp add: uninitialized_check uninitialized_create)
qed

theorem uninitialized_client_rejected_witness:
  "\<not> fst (initializeGoogleCalendar env_without_calendar (\<lambda>email key. Inr free_calendar) Unset) \<and>
   route_check_availability sample_runtime sample_env
       (startServer env_without_calendar (\<lambda>email key. Inr free_calendar)) check_body
     = (error_response 503 msg_unavailable, []) \<and>
   route_create_booking sample_env Null booking_body
     = (error_response 503 msg_unavailable, [])"
proof -
  have failed: "\<not> fst (initializeGoogleCalendar env_without_calendar (\<lambda>email key. Inr free_calendar) Unset)"
    by (simp add: initializeGoogleCalendar_def env_without_calendar_def env_truthy_def)
  show ?thesis
    using failed
      uninitialized_client_rejected [of "startServer env_without_calendar (\<lambda>email key. Inr free_calendar)"
         env_without_calendar "\<lambda>email key. Inr free_calendar" sample_runtime sample_env check_body]
      uninitialized_client_rejected [of Null env_without_calendar "\<lambda>email key. Inr free_calendar"
         sample_runtime sample_env booking_body]
    by simp
qed

text \<open>
  Claim C4 as stated, for all requests whose body lacks \<open>startDateTimeISO\<close>, does not
  hold: the guard on the client and the test of the calendar identifier both come before
  the validation of the field. A body without the field is answered 503 when the client
  was never set, and 500 when the client is ready and the calendar identifier is unset.
\<close>
theorem check_availability_missing_start_counterexample:
  "empty_body ''startDateTimeISO'' = None \<and>
   status (fst (route_check_availability sample_runtime sample_env Unset empty_body)) = 503 \<and>
   status (fst (route_check_availability sample_runtime env_without_calendar
                  (Client free_calendar) empty_body)) = 500"
  by (simp add: empty_body_def env_without_calendar_def route_check_availability_def
        ensureCalendarInitialized_def check_availability_def error_response_def)

text \<open>
  Claim C4, amended. With the client ready and the calendar identifier configured, a
  request to POST /api/check-availability whose body was parsed (\<open>req.body\<close> is an
  object) and lacks \<open>startDateTimeISO\<close> is answered 400 with the validation message of
  the source, and no remote call is made.
\<close>
theorem check_availability_missing_start:
  assumes "env ''CALENDAR_ID'' = Some cid" and "cid \<noteq> []"
    and "req_body = Some body" and "body ''startDateTimeISO'' = None"
  shows "post_check_availability rt env (Client calendar) req_body =
     Inr (\<lparr>status = 400,
            json = JObj [(''error'', JStr
              (''Date et heure de d'' @ [CHR 0xC3, CHR 0xA9] @ ''but manquantes pour la v''
               @ [CHR 0xC3, CHR 0xA9] @ ''rification.''))]\<rparr>, [])"
  using assms
  by (simp add: post_check_parsed ready_check check_availability_def field_def
        error_response_def msg_start_missing_def e_acute_def)

theorem check_availability_missing_start_witness:
  "sample_env ''CALENDAR_ID'' = Some ''salon@group.calendar.google.com'' \<and>
   empty_body ''startDateTimeISO'' = None \<and>
   post_check_availability sample_runtime sample_env (Client free_calendar) (Some empty_body) =
     Inr (\<lparr>status = 400,
            json = JObj [(''error'', JStr
              (''Date et heure de d'' @ [CHR 0xC3, CHR 0xA9] @ ''but manquantes pour la v''
               @ [CHR 0xC3, CHR 0xA9] @ ''rification.''))]\<rparr>, [])"
proof -
  have env: "sample_env ''CALENDAR_ID'' = Some ''salon@group.calendar.google.com''"
    by (simp add: sample_env_def)
  have ne: "''salon@group.calendar.google.com'' \<noteq> []"
    by simp
  have none: "empty_body ''startDateTimeISO'' = None"
    by (simp add: empty_body_def)
  show ?thesis
    using env none
      check_availability_missing_start
        [where env = sample_env and body = empty_body and rt = sample_runtime
           and calendar = free_calendar and req_body = "Some empty_body", OF env ne refl none]
    by simp
qed

text \<open>
  Claim C5 as stated, for all requests lacking a required field, does not hold: the
  guard on the client comes first, and a body without \<open>summary\<close> is answered 503 when the
  client was never set.
\<close>
theorem create_booking_missing_field_counterexample:
  "empty_body ''summary'' = None \<and>
   status (fst (route_create_booking sample_env Unset empty_body)) = 503"
  by (simp add: empty_body_def route_create_booking_def ensureCalendarInitialized_def
        error_response_def)

text \<open>
  Claim C5, amended. With the client ready, a request to POST /api/create-booking whose
  body was parsed (\<open>req.body\<close> is an object) and lacks \<open>summary\<close>, \<open>startDateTimeISO\<close>
  or \<open>endDateTimeISO\<close> is answered 400 with the validation message of the source,
  whatever the environment is, and no remote call is made.
\<close>
theorem create_booking_missing_field:
  assumes "req_body = Some body"
    and "body ''summary'' = None \<or> body ''startDateTimeISO'' = None
     \<or> body ''endDateTimeISO'' = None"
  shows "post_create_booking env (Client calendar) req_body =
     Inr (\<lparr>status = 400,
            json = JObj [(''error'', JStr
              (''Les informations de r'' @ [CHR 0xC3, CHR 0xA9] @ ''sum'' @ [CHR 0xC3, CHR 0xA9]
               @ '', date/heure de d'' @ [CHR 0xC3, CHR 0xA9] @ ''but et de fin sont requises.''))]\<rparr>, [])"
proof -
  have "create_booking env calendar body = (error_response 400 msg_required, [])"
    by (rule create_booking_missing) (use assms(2) in \<open>auto simp: field_def\<close>)
  then show ?thesis
    by (simp add: assms(1) post_create_parsed ready_create error_response_def
          msg_required_def e_acute_def)
qed

theorem create_booking_missing_field_witness:
  "post_create_booking sample_env (Client free_calendar)
      (Some (booking_body(''endDateTimeISO'' := None))) =
     Inr (\<lparr>status = 400,
            json = JObj [(''error'', JStr
              (''Les informations de r'' @ [CHR 0xC3, CHR 0xA9] @ ''sum'' @ [CHR 0xC3, CHR 0xA9]
               @ '', date/heure de d'' @ [CHR 0xC3, CHR 0xA9] @ ''but et de fin sont requises.''))]\<rparr>, [])"
  using create_booking_missing_field
    [of "Some (booking_body(''endDateTimeISO'' := None))"
        "booking_body(''endDateTimeISO'' := None)" sample_env free_calendar]
  by simp

text \<open>
  Claim C6. Whatever the environment, the client handle and the body are, every event
  submitted for insertion has no \<open>attendees\<close> property, and the \<open>email\<close> field has no
  influence at all: giving it any value, or removing it, leaves the response and the
  remote calls of the request unchanged.
\<close>
theorem create_booking_no_attendees:
  "(\<forall>p. InsertCall p \<in> set (snd (route_create_booking env calendarClient body)) \<longrightarrow>
        ''attendees'' \<notin> set (keys (resource p)) \<and> get (resource p) ''attendees'' = JUndefined)
   \<and> route_create_booking env calendarClient (body(''email'' := email))
       = route_create_booking env calendarClient body"
proof -
  have "''attendees'' \<notin> set (keys (resource (booking_params cid body)))
      \<and> get (resource (booking_params cid body)) ''attendees'' = JUndefined" for cid
    by (simp add: booking_params_def event_def)
  then have calls: "\<forall>p. InsertCall p \<in> set (snd (route_create_booking env calendarClient body)) \<longrightarrow>
        ''attendees'' \<notin> set (keys (resource p)) \<and> get (resource p) ''attendees'' = JUndefined"
    by (blast dest: route_create_calls)
  have f: "field (body(''email'' := email)) k = field body k" if "k \<noteq> ''email''" for k
    using that by (simp add: field_def)
  have "booking_params cid (body(''email'' := email)) = booking_params cid body" for cid
    by (simp add: booking_params_def f)
  then have "create_booking env calendar (body(''email'' := email))
      = create_booking env calendar body" for calendar
    by (simp add: create_booking_def f Let_def split: option.splits)
  then have "route_create_booking env calendarClient (body(''email'' := email))
       = route_create_booking env calendarClient body"
    by (simp add: route_create_booking_def)
  with calls show ?thesis by simp
qed

theorem create_booking_no_attendees_witness:
  "InsertCall (booking_params ''salon@group.calendar.google.com'' booking_body)
     \<in> set (snd (route_create_booking sample_env (Client free_calendar) booking_body)) \<and>
   ''attendees'' \<notin> set (keys (resource
       (booking_params ''salon@group.calendar.google.com'' booking_body))) \<and>
   route_create_booking sample_env (Client free_calendar)
       (booking_body(''email'' := Some (JStr ''other@example.com'')))
     = route_create_booking sample_env (Client free_calendar) booking_body"
proof -
  have f: "truthy (field booking_body ''summary'')"
      "truthy (field booking_body ''startDateTimeISO'')"
      "truthy (field booking_body ''endDateTimeISO'')"
    by (simp_all add: booking_body_def field_def)
  have called: "InsertCall (booking_params ''salon@group.calendar.google.com'' booking_body)
     \<in> set (snd (route_create_booking sample_env (Client free_calendar) booking_body))"
    unfolding ready_create create_booking_present [OF f]
    by (simp add: sample_env_def split: sum.splits)
  show ?thesis
    using called
      create_booking_no_attendees [of sample_env "Client free_calendar" booking_body
        "Some (JStr ''other@example.com'')"]
    by blast
qed

text \<open>
  Claim C7. A booking answered 200 has made exactly one insertion, and every event
  submitted for insertion has the time zone \<open>Europe/Paris\<close> on its start and on its end,
  \<open>useDefault = false\<close>, and exactly the two reminder overrides of the source: by email
  1440 minutes before, by popup 10 minutes before.
\<close>
theorem create_booking_event_settings:
  "(status (fst (route_create_booking env calendarClient body)) = 200 \<longrightarrow>
      (\<exists>p. snd (route_create_booking env calendarClient body) = [InsertCall p]))
   \<and> (\<forall>p. InsertCall p \<in> set (snd (route_create_booking env calendarClient body)) \<longrightarrow>
        get (get (resource p) ''start'') ''timeZone'' = JStr ''Europe/Paris'' \<and>
        get (get (resource p) ''end'') ''timeZone'' = JStr ''Europe/Paris'' \<and>
        get (get (resource p) ''reminders'') ''useDefault'' = JBool False \<and>
        get (get (resource p) ''reminders'') ''overrides'' =
          JArr [JObj [(''method'', JStr ''email''), (''minutes'', JNum (Fin 1440))],
                JObj [(''method'', JStr ''popup''), (''minutes'', JNum (Fin 10))]])"
proof -
  let ?R = "route_create_booking env calendarClient body"
  have ok: "status (fst ?R) = 200 \<longrightarrow> (\<exists>p. snd ?R = [InsertCall p])"
    by (cases calendarClient)
       (auto simp: route_create_booking_def ensureCalendarInitialized_def create_booking_def
          error_response_def Let_def split: option.splits sum.splits)
  have "get (get (resource (booking_params cid body)) ''start'') ''timeZone'' = JStr ''Europe/Paris'' \<and>
        get (get (resource (booking_params cid body)) ''end'') ''timeZone'' = JStr ''Europe/Paris'' \<and>
        get (get (resource (booking_params cid body)) ''reminders'') ''useDefault'' = JBool False \<and>
        get (get (resource (booking_params cid body)) ''reminders'') ''overrides'' =
          JArr [JObj [(''method'', JStr ''email''), (''minutes'', JNum (Fin 1440))],
                JObj [(''method'', JStr ''popup''), (''minutes'', JNum (Fin 10))]]" for cid
    by (simp add: booking_params_def event_def)
  then have "\<forall>p. InsertCall p \<in> set (snd ?R) \<longrightarrow>
        get (get (resource p) ''start'') ''timeZone'' = JStr ''Europe/Paris'' \<and>
        get (get (resource p) ''end'') ''timeZone'' = JStr ''Europe/Paris'' \<and>
        get (get (resource p) ''reminders'') ''useDefault'' = JBool False \<and>
        get (get (resource p) ''reminders'') ''overrides'' =
          JArr [JObj [(''method'', JStr ''email''), (''minutes'', JNum (Fin 1440))],
                JObj [(''method'', JStr ''popup''), (''minutes'', JNum (Fin 10))]]"
    by (blast dest: route_create_calls)
  with ok show ?thesis by simp
qed

theorem create_booking_event_settings_witness:
  "status (fst (route_create_booking sample_env (Client free_calendar) booking_body)) = 200 \<and>
   snd (route_create_booking sample_env (Client free_calendar) booking_body)
     = [InsertCall (booking_params ''salon@group.calendar.google.com'' booking_body)] \<and>
   get (get (resource (booking_params ''salon@group.calendar.google.com'' booking_body))
          ''reminders'') ''overrides'' =
     JArr [JObj [(''method'', JStr ''email''), (''minutes'', JNum (Fin 1440))],
           JObj [(''method'', JStr ''popup''), (''minutes'', JNum (Fin 10))]] \<and>
   get (get (resource (booking_params ''salon@group.calendar.google.com'' booking_body))
          ''start'') ''timeZone'' = JStr ''Europe/Paris''"
proof -
  have f: "truthy (field booking_body ''summary'')"
      "truthy (field booking_body ''startDateTimeISO'')"
      "truthy (field booking_body ''endDateTimeISO'')"
    by (simp_all add: booking_body_def field_def)
  have run: "route_create_booking sample_env (Client free_calendar) booking_body =
      (\<lparr>status = 200,
        json = JObj [(''success'', JBool True),
                     (''eventLink'', JStr ''https://www.google.com/calendar/event?eid=e1''),
                     (''eventId'', JStr ''e1'')]\<rparr>,
       [InsertCall (booking_params ''salon@group.calendar.google.com'' booking_body)])"
    unfolding ready_create create_booking_present [OF f]
    by (simp add: sample_env_def free_calendar_def)
  show ?thesis
    using create_booking_event_settings [of sample_env "Client free_calendar" booking_body]
    by (simp add: run)
qed

text \<open>
  Claim C8 as stated, for either protected endpoint, does not hold for
  POST /api/create-booking: there the required fields are validated before the calendar
  identifier is tested, so with the client ready and the identifier unset a body without
  the required fields is answered 400.
\<close>
theorem missing_calendar_id_counterexample:
  "\<not> env_truthy (env_without_calendar ''CALENDAR_ID'') \<and>
   status (fst (route_create_booking env_without_calendar (Client free_calendar) empty_body))
     = 400"
  by (simp add: env_truthy_def env_without_calendar_def empty_body_def ready_create
        create_booking_def field_def error_response_def)

text \<open>
  Claim C8, amended. With the client ready, the calendar identifier unset or empty at
  request time, and a parsed body (\<open>req.body\<close> is an object),
  POST /api/check-availability is answered 500 with the configuration message of the
  source whatever the body holds, POST /api/create-booking is answered 500 with the same
  message when \<open>summary\<close>, \<open>startDateTimeISO\<close> and \<open>endDateTimeISO\<close> are present, and
  neither route makes a remote call.
\<close>
theorem missing_calendar_id:
  assumes "\<not> env_truthy (env ''CALENDAR_ID'')" and "req_body = Some body"
  shows "post_check_availability rt env (Client calendar) req_body =
       Inr (\<lparr>status = 500,
              json = JObj [(''error'', JStr
                (''Configuration du calendrier invalide c'' @ [CHR 0xC3, CHR 0xB4] @ ''t''
                 @ [CHR 0xC3, CHR 0xA9] @ '' serveur.''))]\<rparr>, [])
     \<and> (truthy (field body ''summary'') \<and> truthy (field body ''startDateTimeISO'')
          \<and> truthy (field body ''endDateTimeISO'') \<longrightarrow>
        post_create_booking env (Client calendar) req_body =
          Inr (\<lparr>status = 500,
                json = JObj [(''error'', JStr
                  (''Configuration du calendrier invalide c'' @ [CHR 0xC3, CHR 0xB4] @ ''t''
                   @ [CHR 0xC3, CHR 0xA9] @ '' serveur.''))]\<rparr>, []))
     \<and> calls_made (post_create_booking env (Client calendar) req_body) = []"
proof -
  from assms(1) have env: "env ''CALENDAR_ID'' = None \<or> env ''CALENDAR_ID'' = Some []"
    by (auto simp: env_truthy_def split: option.splits)
  then have "check_availability rt env calendar body = (error_response 500 msg_config, [])"
    by (auto simp: check_availability_def Let_def)
  moreover from env have "snd (create_booking env calendar body) = []"
    by (auto simp: create_booking_def Let_def)
  moreover from env have "create_booking env calendar body = (error_response 500 msg_config, [])"
    if "truthy (field body ''summary'')" "truthy (field body ''startDateTimeISO'')"
      "truthy (field body ''endDateTimeISO'')"
    unfolding create_booking_present [OF that] by auto
  ultimately show ?thesis
    by (simp add: assms(2) post_check_parsed post_create_parsed ready_check ready_create
          calls_made_Inr error_response_def msg_config_def e_acute_def o_circ_def)
qed

theorem missing_calendar_id_witness:
  "\<not> env_truthy (env_without_calendar ''CALENDAR_ID'') \<and>
   post_check_availability sample_runtime env_without_calendar (Client free_calendar)
       (Some check_body) =
     Inr (\<lparr>status = 500,
            json = JObj [(''error'', JStr
              (''Configuration du calendrier invalide c'' @ [CHR 0xC3, CHR 0xB4] @ ''t''
               @ [CHR 0xC3, CHR 0xA9] @ '' serveur.''))]\<rparr>, []) \<and>
   post_create_booking env_without_calendar (Client free_calendar) (Some booking_body) =
     Inr (\<lparr>status = 500,
            json = JObj [(''error'', JStr
              (''Configuration du calendrier invalide c'' @ [CHR 0xC3, CHR 0xB4] @ ''t''
               @ [CHR 0xC3, CHR 0xA9] @ '' serveur.''))]\<rparr>, [])"
proof -
  have env: "\<not> env_truthy (env_without_calendar ''CALENDAR_ID'')"
    by (simp add: env_truthy_def env_without_calendar_def)
  have f: "truthy (field booking_body ''summary'')"
      "truthy (field booking_body ''startDateTimeISO'')"
      "truthy (field booking_body ''endDateTimeISO'')"
    by (simp_all add: booking_body_def field_def)
  show ?thesis
    using env f
      missing_calendar_id [where env = env_without_calendar and rt = sample_runtime
        and calendar = free_calendar and body = check_body
        and req_body = "Some check_body", OF env refl]
      missing_calendar_id [where env = env_without_calendar and rt = sample_runtime
        and calendar = free_calendar and body = booking_body
        and req_body = "Some booking_body", OF env refl]
    by simp
qed

text \<open>
  Claim C9. With the client ready and the calendar identifier configured, a request to
  POST /api/check-availability whose \<open>startDateTimeISO\<close> is a non-empty string that the
  host cannot parse as a date faults in the guarded region (the Date of the start is
  invalid, so is the Date thirty minutes later, and \<open>toISOString\<close> throws a RangeError)
  and is answered with the generic 500, not with a 400; no remote call is made.
\<close>
theorem check_availability_unparseable_start:
  assumes "env ''CALENDAR_ID'' = Some cid" and "cid \<noteq> []"
    and "field body ''startDateTimeISO'' = JStr s" and "s \<noteq> []"
    and "Date_parse rt s = None"
  shows "probe_timeMax rt (JStr s) = Inl RangeError
     \<and> route_check_availability rt env (Client calendar) body
         = (error_response 500 msg_check_failed, [])
     \<and> status (fst (route_check_availability rt env (Client calendar) body)) \<noteq> 400"
proof -
  have tr: "truthy (field body ''startDateTimeISO'')"
    using assms(3,4) by simp
  have probe: "probe_timeMax rt (JStr s) = Inl RangeError"
    using assms(5) by (rule probe_timeMax_unparseable)
  have "check_availability rt env calendar body = (error_response 500 msg_check_failed, [])"
    unfolding check_availability_configured [of env cid body, OF assms(1,2) tr]
    by (simp add: assms(3) probe)
  with probe show ?thesis
    by (simp add: ready_check error_response_def)
qed

theorem check_availability_unparseable_start_witness:
  "field unparseable_body ''startDateTimeISO'' = JStr ''demain matin'' \<and>
   Date_parse sample_runtime ''demain matin'' = None \<and>
   route_check_availability sample_runtime sample_env (Client free_calendar) unparseable_body
     = (error_response 500 msg_check_failed, [])"
proof -
  have env: "sample_env ''CALENDAR_ID'' = Some ''salon@group.calendar.google.com''"
    by (simp add: sample_env_def)
  have ne: "''salon@group.calendar.google.com'' \<noteq> []"
    by simp
  have start: "field unparseable_body ''startDateTimeISO'' = JStr ''demain matin''"
    by (simp add: unparseable_body_def field_def)
  have s: "''demain matin'' \<noteq> []"
    by simp
  have parse: "Date_parse sample_runtime ''demain matin'' = None"
    by (simp add: sample_runtime_def)
  show ?thesis
    using start parse
      check_availability_unparseable_start
        [where env = sample_env and body = unparseable_body and rt = sample_runtime
           and calendar = free_calendar, OF env ne start s parse]
    by simp
qed



end
